theory Spec2Isabelle
  imports Main
begin

section \<open>JavaScript values and errors\<close>

text \<open>
  The component of \<^verbatim>\<open>src/frontend/src/components/TenderDashboard.jsx\<close> handles values
  that come out of \<^verbatim>\<open>response.json()\<close> and never checks their shape, so they are
  modelled untyped: a JSON value, or \<^verbatim>\<open>undefined\<close> (what reading an absent property
  gives). The type \<open>'n\<close> stands for JavaScript's numbers; the component does no arithmetic
  on them. An object is the list of its own properties, each key once.
\<close>

datatype 'n jsval =
    JUndefined
  | JNull
  | JBool bool
  | JNum 'n
  | JStr string
  | JArr "'n jsval list"
  | JObj "(string \<times> 'n jsval) list"

datatype js_error = Error string | TypeError | SyntaxError

text \<open>Sequencing of computations that may throw: the first exception wins.\<close>

definition bindE :: "js_error + 'a \<Rightarrow> ('a \<Rightarrow> js_error + 'b) \<Rightarrow> js_error + 'b" where
  "bindE m f = (case m of Inl e \<Rightarrow> Inl e | Inr x \<Rightarrow> f x)"

fun nullish :: "'n jsval \<Rightarrow> bool" where
  "nullish JUndefined = True"
| "nullish JNull = True"
| "nullish _ = False"

text \<open>
  The member expression \<^verbatim>\<open>v.k\<close> for the property names the component reads
  (\<^verbatim>\<open>title\<close>, \<^verbatim>\<open>price_range\<close>, \<^verbatim>\<open>min\<close>, \<^verbatim>\<open>max\<close>, \<^verbatim>\<open>confidence\<close>,
  \<^verbatim>\<open>requirements\<close>, \<^verbatim>\<open>compliance\<close>), none of which a prototype defines: on
  \<^verbatim>\<open>undefined\<close> and \<^verbatim>\<open>null\<close> it throws a TypeError, on an object it is the own
  property or \<^verbatim>\<open>undefined\<close>, on any other value it is \<^verbatim>\<open>undefined\<close>.
\<close>

fun getProp :: "'n jsval \<Rightarrow> string \<Rightarrow> js_error + 'n jsval" where
  "getProp JUndefined k = Inl TypeError"
| "getProp JNull k = Inl TypeError"
| "getProp (JObj kvs) k = Inr (case map_of kvs k of None \<Rightarrow> JUndefined | Some v \<Rightarrow> v)"
| "getProp _ k = Inr JUndefined"

text \<open>
  The method call \<^verbatim>\<open>v.toLocaleString()\<close>. On \<^verbatim>\<open>undefined\<close> and \<^verbatim>\<open>null\<close> the
  property read throws a TypeError; on every other value the method is the host's, taken
  as the parameter \<open>toLS\<close> (it formats a number by the user's locale).
\<close>

definition toLocaleString ::
  "('n jsval \<Rightarrow> js_error + string) \<Rightarrow> 'n jsval \<Rightarrow> js_error + string" where
  "toLocaleString toLS v = (if nullish v then Inl TypeError else toLS v)"

text \<open>
  The method call \<^verbatim>\<open>v.map((x, index) => f x index)\<close> with a callback that does not
  throw. Only an array has a callable \<^verbatim>\<open>map\<close>: on \<^verbatim>\<open>undefined\<close> and \<^verbatim>\<open>null\<close> the
  property read throws, on the other values \<^verbatim>\<open>map\<close> is \<^verbatim>\<open>undefined\<close> or, on an
  object that has such a key, a JSON value, and calling it throws; all are TypeErrors.
\<close>

fun arrayMap :: "'n jsval \<Rightarrow> ('n jsval \<Rightarrow> nat \<Rightarrow> 'a) \<Rightarrow> js_error + 'a list" where
  "arrayMap (JArr xs) f = Inr (map (\<lambda>(index, x). f x index) (enumerate 0 xs))"
| "arrayMap _ f = Inl TypeError"

text \<open>\<^verbatim>\<open>!s\<close> on a string: the empty string is the only falsy one.\<close>

definition truthyStr :: "string \<Rightarrow> bool" where
  "truthyStr s = (s \<noteq> [])"

section \<open>The component's state\<close>

record 'n priceRangeT =
  min_pr :: "'n jsval"
  max_pr :: "'n jsval"

record 'n analysisResult =
  title :: "'n jsval"
  priceRange :: "'n priceRangeT"
  confidence :: "'n jsval"
  requirements :: "'n jsval"
  compliance :: "'n jsval"

text \<open>
  The three \<^verbatim>\<open>useState\<close> cells (lines 5-7). \<open>analysis = None\<close> is \<^verbatim>\<open>null\<close>.
  \<open>tenderId\<close> is always a string: it starts as \<^verbatim>\<open>""\<close> and is only ever set to the
  value of the text input.
\<close>

record 'n dashboard =
  tenderId :: string
  analysis :: "'n analysisResult option"
  loading :: bool

definition initialState :: "'n dashboard" where
  "initialState = \<lparr>tenderId = [], analysis = None, loading = False\<rparr>"

text \<open>The \<^verbatim>\<open>onChange\<close> handler of the input (line 60).\<close>

definition setTenderId :: "string \<Rightarrow> 'n dashboard \<Rightarrow> 'n dashboard" where
  "setTenderId v st = st\<lparr>tenderId := v\<rparr>"

section \<open>The analysis request\<close>

record 'n fetchInit =
  req_method :: string
  req_headers :: "(string \<times> string) list"
  req_body :: "'n jsval"

text \<open>
  What the world sees of one run of \<^verbatim>\<open>analyzeTender\<close>: the call of \<^verbatim>\<open>fetch\<close>
  (its URL and options; \<open>req_body\<close> is the value handed to \<^verbatim>\<open>JSON.stringify\<close>),
  \<^verbatim>\<open>console.error\<close> with its two arguments, and \<^verbatim>\<open>alert\<close> with its message.
\<close>

datatype 'n effect =
    Fetch string "'n fetchInit"
  | ConsoleError string js_error
  | Alert string

text \<open>
  What the world answers: \<^verbatim>\<open>fetch\<close> rejects with an error (network failure) or
  resolves to a response, of which the component reads \<^verbatim>\<open>ok\<close> and, only after that,
  \<^verbatim>\<open>json()\<close>, which rejects (the body is not JSON) or resolves to the parsed value.
\<close>

record 'n response =
  ok :: bool
  json :: "js_error + 'n jsval"

type_synonym 'n outcome = "js_error + 'n response"

definition analyzeRequest :: "string \<Rightarrow> 'n effect" where
  "analyzeRequest tid =
     Fetch ''http://localhost:8000/api/analyze-tender''
       \<lparr>req_method = ''POST'',
        req_headers = [(''Content-Type'', ''application/json'')],
        req_body = JObj [(''tender_id'', JStr tid), (''tender_url'', JNull)]\<rparr>"

text \<open>
  Lines 30-39: the object literal handed to \<^verbatim>\<open>setAnalysis\<close>, its property reads in
  source order.
\<close>

definition transform :: "'n jsval \<Rightarrow> js_error + 'n analysisResult" where
  "transform data =
     bindE (getProp data ''title'') (\<lambda>t.
     bindE (getProp data ''price_range'') (\<lambda>pr1.
     bindE (getProp pr1 ''min'') (\<lambda>mn.
     bindE (getProp data ''price_range'') (\<lambda>pr2.
     bindE (getProp pr2 ''max'') (\<lambda>mx.
     bindE (getProp data ''confidence'') (\<lambda>c.
     bindE (getProp data ''requirements'') (\<lambda>r.
     bindE (getProp data ''compliance'') (\<lambda>cp.
       Inr \<lparr>title = t, priceRange = \<lparr>min_pr = mn, max_pr = mx\<rparr>,
            confidence = c, requirements = r, compliance = cp\<rparr>))))))))"

text \<open>
  Lines 12-39, the \<^verbatim>\<open>try\<close> block after the request is sent: an exception, or the
  state after \<^verbatim>\<open>setAnalysis\<close>. Here \<^verbatim>\<open>setAnalysis\<close> is a write that returns: React
  renders the new state after the handler has run, as a root made with
  \<^verbatim>\<open>createRoot\<close> does, which batches the updates made after an \<^verbatim>\<open>await\<close>. The run on
  a root that renders inside the setter is \<open>analyzeTenderSync\<close>, after the rendering.
\<close>

definition tryBlock :: "'n dashboard \<Rightarrow> 'n outcome \<Rightarrow> js_error + 'n dashboard" where
  "tryBlock st outcome =
     bindE outcome (\<lambda>response.
       if \<not> ok response then Inl (Error ''Analysis failed'')
       else bindE (json response) (\<lambda>data.
            bindE (transform data) (\<lambda>a.
              Inr (st\<lparr>analysis := Some a\<rparr>))))"

text \<open>
  Lines 9-46: one activation run to its end, given the world's answer. It returns the
  state the component is left in and the effects in the order they happen. The
  \<^verbatim>\<open>catch\<close> block keeps the state of before the \<^verbatim>\<open>try\<close>; the \<^verbatim>\<open>finally\<close> block runs
  after either.
\<close>

definition analyzeTender :: "'n dashboard \<Rightarrow> 'n outcome \<Rightarrow> 'n dashboard \<times> 'n effect list" where
  "analyzeTender st outcome =
     (let st1 = st\<lparr>loading := True\<rparr>;
          sent = [analyzeRequest (tenderId st1)];
          (st2, effs) =
            (case tryBlock st1 outcome of
               Inr st' \<Rightarrow> (st', sent)
             | Inl error \<Rightarrow>
                 (st1, sent @ [ConsoleError ''Error analyzing tender:'' error,
                               Alert ''Failed to analyze tender. Please try again.'']))
      in (st2\<lparr>loading := False\<rparr>, effs))"

section \<open>Rendering\<close>

text \<open>
  The element tree the component function returns (lines 48-122). A JSX element is
  \<open>Elem\<close> with its tag, its props and its children; literal JSX text is \<open>Text\<close>; a
  child written \<^verbatim>\<open>{e}\<close> is \<open>Expr\<close> of the value of \<^verbatim>\<open>e\<close>. React renders the children
  \<^verbatim>\<open>null\<close>, \<^verbatim>\<open>undefined\<close> and booleans as nothing.
\<close>

datatype attr = AStr string | ABool bool | ANum nat | AHandler string

datatype 'n vnode =
    Elem string "(string \<times> attr) list" "'n vnode list"
  | Text string
  | Expr "'n jsval"

fun isArr :: "'n jsval \<Rightarrow> bool" where
  "isArr (JArr xs) = True"
| "isArr _ = False"

fun rendersNothing :: "'n vnode \<Rightarrow> bool" where
  "rendersNothing (Expr JNull) = True"
| "rendersNothing (Expr JUndefined) = True"
| "rendersNothing (Expr (JBool b)) = True"
| "rendersNothing _ = False"

definition className :: "string \<Rightarrow> string \<times> attr" where
  "className c = (''className'', AStr c)"

text \<open>The euro sign U+20AC, in UTF-8.\<close>

definition euro :: string where
  "euro = [CHR 0xE2, CHR 0x82, CHR 0xAC]"

text \<open>Line 66: \<^verbatim>\<open>disabled={loading || !tenderId}\<close>.\<close>

definition buttonDisabled :: "'n dashboard \<Rightarrow> bool" where
  "buttonDisabled st = (loading st \<or> \<not> truthyStr (tenderId st))"

text \<open>Lines 53-73: the input and the trigger button.\<close>

definition inputTrigger :: "'n dashboard \<Rightarrow> 'n vnode" where
  "inputTrigger st =
     Elem ''div'' [className ''bg-white rounded-lg shadow-md p-6 mb-6'']
       [Elem ''div'' [className ''flex gap-4 mb-4'']
          [Elem ''div'' [className ''flex-1'']
             [Elem ''input''
                [(''type'', AStr ''text''),
                 (''placeholder'', AStr ''Enter Tender ID or URL''),
                 (''value'', AStr (tenderId st)),
                 (''onChange'', AHandler ''setTenderId''),
                 className ''w-full px-4 py-2 border border-gray-300 rounded-lg focus:ring-2 focus:ring-blue-500 focus:border-transparent'']
                []],
           Elem ''button''
             [(''onClick'', AHandler ''analyzeTender''),
              (''disabled'', ABool (buttonDisabled st)),
              className ''px-6 py-2 bg-blue-600 text-white rounded-lg hover:bg-blue-700 disabled:opacity-50 flex items-center gap-2'']
             [Elem ''Search'' [(''size'', ANum 20)] [],
              Expr (JStr (if loading st then ''Analyzing...'' else ''Analyze''))]]]"

text \<open>Lines 77-89: the price panel.\<close>

definition pricePanel ::
  "('n jsval \<Rightarrow> js_error + string) \<Rightarrow> 'n analysisResult \<Rightarrow> js_error + 'n vnode" where
  "pricePanel toLS a =
     bindE (toLocaleString toLS (min_pr (priceRange a))) (\<lambda>lo.
     bindE (toLocaleString toLS (max_pr (priceRange a))) (\<lambda>hi.
       Inr (Elem ''div'' [className ''bg-white rounded-lg shadow-md p-6'']
          [Elem ''h2'' [className ''text-xl font-semibold mb-4 flex items-center gap-2'']
             [Elem ''DollarSign'' [className ''text-green-600''] [],
              Text ''Optimal Bid Range''],
           Elem ''div'' [className ''text-3xl font-bold text-green-600 mb-2'']
             [Text euro, Expr (JStr lo), Text ('' - '' @ euro), Expr (JStr hi)],
           Elem ''div'' [className ''text-sm text-gray-600'']
             [Text ''Confidence: '', Expr (confidence a), Text ''%'']])))"

text \<open>Lines 91-102: the compliance panel.\<close>

definition compliancePanel :: "'n analysisResult \<Rightarrow> 'n vnode" where
  "compliancePanel a =
     Elem ''div'' [className ''bg-white rounded-lg shadow-md p-6'']
       [Elem ''h2'' [className ''text-xl font-semibold mb-4 flex items-center gap-2'']
          [Elem ''CheckCircle'' [className ''text-blue-600''] [],
           Text ''Compliance Score''],
        Elem ''div'' [className ''text-3xl font-bold text-blue-600 mb-2'']
          [Expr (compliance a), Text ''%''],
        Elem ''div'' [className ''text-sm text-gray-600'']
          [Text ''Based on requirements analysis'']]"

text \<open>Lines 111-114: the callback of \<^verbatim>\<open>map\<close>, one list item.\<close>

definition requirementItem :: "'n jsval \<Rightarrow> nat \<Rightarrow> 'n vnode" where
  "requirementItem req index =
     Elem ''li'' [(''key'', ANum index), className ''flex items-start gap-2'']
       [Elem ''CheckCircle'' [(''size'', ANum 16), className ''text-green-500 mt-1''] [],
        Elem ''span'' [] [Expr req]]"

text \<open>
  Lines 104-117: the requirements panel. The array that \<^verbatim>\<open>map\<close> returns is the
  children of the \<^verbatim>\<open>ul\<close>.
\<close>

definition requirementsPanel :: "'n analysisResult \<Rightarrow> js_error + 'n vnode" where
  "requirementsPanel a =
     bindE (arrayMap (requirements a) requirementItem) (\<lambda>items.
       Inr (Elem ''div'' [className ''bg-white rounded-lg shadow-md p-6 md:col-span-2'']
          [Elem ''h2'' [className ''text-xl font-semibold mb-4 flex items-center gap-2'']
             [Elem ''FileText'' [className ''text-purple-600''] [],
              Text ''Key Requirements''],
           Elem ''ul'' [className ''space-y-2''] items]))"

text \<open>
  Lines 75-119: \<^verbatim>\<open>{analysis && (...)}\<close>. With no stored result the expression is
  \<^verbatim>\<open>null\<close>; with one (an object, so truthy) it is the grid of the three panels, whose
  children are evaluated in source order.
\<close>

definition resultPanels ::
  "('n jsval \<Rightarrow> js_error + string) \<Rightarrow> 'n analysisResult option \<Rightarrow> js_error + 'n vnode" where
  "resultPanels toLS an =
     (case an of
        None \<Rightarrow> Inr (Expr JNull)
      | Some a \<Rightarrow>
          bindE (pricePanel toLS a) (\<lambda>price.
          bindE (requirementsPanel a) (\<lambda>reqs.
            Inr (Elem ''div'' [className ''grid grid-cols-1 md:grid-cols-2 gap-6'']
                   [price, compliancePanel a, reqs]))))"

definition heading :: "'n vnode" where
  "heading = Elem ''h1'' [className ''text-3xl font-bold text-gray-900 mb-8''] [Text ''Toptimize'']"

definition page :: "'n vnode list \<Rightarrow> 'n vnode" where
  "page children =
     Elem ''div'' [className ''min-h-screen bg-gray-50 p-6'']
       [Elem ''div'' [className ''max-w-6xl mx-auto''] children]"

text \<open>Lines 48-122: what the component function returns, or the exception it throws.\<close>

definition TenderDashboard ::
  "('n jsval \<Rightarrow> js_error + string) \<Rightarrow> 'n dashboard \<Rightarrow> js_error + 'n vnode" where
  "TenderDashboard toLS st =
     bindE (resultPanels toLS (analysis st)) (\<lambda>result.
       Inr (page [heading, inputTrigger st, result]))"

section \<open>The request on a root that renders synchronously\<close>

text \<open>
  Nothing in the source fixes the kind of React root. On a legacy root
  (\<^verbatim>\<open>ReactDOM.render\<close>) a state setter called after an \<^verbatim>\<open>await\<close> is not batched:
  \<^verbatim>\<open>setAnalysis\<close> runs the component function on the new state before it returns, and
  when that render throws, with no error boundary around the component, React unmounts
  the tree and rethrows the exception from the setter, that is, inside the \<^verbatim>\<open>try\<close>
  block of lines 11-39.
\<close>

definition setAnalysisSync ::
  "('n jsval \<Rightarrow> js_error + string) \<Rightarrow> 'n analysisResult \<Rightarrow> 'n dashboard \<Rightarrow> js_error + 'n dashboard" where
  "setAnalysisSync toLS a st =
     bindE (TenderDashboard toLS (st\<lparr>analysis := Some a\<rparr>)) (\<lambda>tree.
       Inr (st\<lparr>analysis := Some a\<rparr>))"

text \<open>
  The \<^verbatim>\<open>try\<close> block on such a root: the state after \<^verbatim>\<open>setAnalysis\<close>, or the
  exception together with what is left of the view when it is thrown (\<open>None\<close> once the
  failed render has unmounted it).
\<close>

definition tryBlockSync ::
  "('n jsval \<Rightarrow> js_error + string) \<Rightarrow> 'n dashboard \<Rightarrow> 'n outcome \<Rightarrow>
   (js_error \<times> 'n dashboard option) + 'n dashboard" where
  "tryBlockSync toLS st outcome =
     (case outcome of
        Inl e \<Rightarrow> Inl (e, Some st)
      | Inr response \<Rightarrow>
          if \<not> ok response then Inl (Error ''Analysis failed'', Some st)
          else (case json response of
                  Inl e \<Rightarrow> Inl (e, Some st)
                | Inr data \<Rightarrow>
                    (case transform data of
                       Inl e \<Rightarrow> Inl (e, Some st)
                     | Inr a \<Rightarrow>
                         (case setAnalysisSync toLS a st of
                            Inl e \<Rightarrow> Inl (e, None)
                          | Inr st' \<Rightarrow> Inr st'))))"

text \<open>
  Lines 9-46 on such a root. \<^verbatim>\<open>setLoading(false)\<close> of the \<^verbatim>\<open>finally\<close> block does
  nothing to an unmounted view; on a mounted one it renders again, the same result panels
  as the render inside \<^verbatim>\<open>setAnalysis\<close>, which returned.
\<close>

definition analyzeTenderSync ::
  "('n jsval \<Rightarrow> js_error + string) \<Rightarrow> 'n dashboard \<Rightarrow> 'n outcome \<Rightarrow>
   'n dashboard option \<times> 'n effect list" where
  "analyzeTenderSync toLS st outcome =
     (let st1 = st\<lparr>loading := True\<rparr>;
          sent = [analyzeRequest (tenderId st1)]
      in case tryBlockSync toLS st1 outcome of
           Inr st' \<Rightarrow> (Some (st'\<lparr>loading := False\<rparr>), sent)
         | Inl (error, left) \<Rightarrow>
             (map_option (\<lambda>s. s\<lparr>loading := False\<rparr>) left,
              sent @ [ConsoleError ''Error analyzing tender:'' error,
                      Alert ''Failed to analyze tender. Please try again.'']))"

section \<open>Observations and example inputs\<close>

text \<open>The elements of a tree that have a given tag, in document order.\<close>

fun findElems :: "string \<Rightarrow> 'n vnode \<Rightarrow> 'n vnode list" where
  "findElems tag (Elem t ps cs) =
     (if t = tag then [Elem t ps cs] else []) @ concat (map (findElems tag) cs)"
| "findElems tag (Text s) = []"
| "findElems tag (Expr v) = []"

text \<open>The network calls among the effects of a run.\<close>

fun isFetch :: "'n effect \<Rightarrow> bool" where
  "isFetch (Fetch url init) = True"
| "isFetch _ = False"

text \<open>
  The children of the page's inner container: the heading, the input and trigger section,
  and whatever follows them.
\<close>

fun pageChildren :: "'n vnode \<Rightarrow> 'n vnode list" where
  "pageChildren (Elem t ps [Elem t' ps' children]) = children"
| "pageChildren _ = []"

text \<open>
  The response of the specification's scenario, the result it is stored as, an older
  result, and two states of the view with the tender id \<^verbatim>\<open>T-1001\<close> typed in: one
  that holds the older result and one that holds none.
\<close>

definition sampleBody :: "(string \<times> int jsval) list" where
  "sampleBody =
     [(''title'', JStr ''Road Maintenance''),
      (''price_range'', JObj [(''min'', JNum 50000), (''max'', JNum 75000)]),
      (''confidence'', JNum 82),
      (''requirements'', JArr [JStr ''ISO 9001'']),
      (''compliance'', JNum 91)]"

definition sampleResult :: "int analysisResult" where
  "sampleResult =
     \<lparr>title = JStr ''Road Maintenance'',
      priceRange = \<lparr>min_pr = JNum 50000, max_pr = JNum 75000\<rparr>,
      confidence = JNum 82, requirements = JArr [JStr ''ISO 9001''],
      compliance = JNum 91\<rparr>"

definition olderResult :: "int analysisResult" where
  "olderResult =
     \<lparr>title = JStr ''Bridge Repair'',
      priceRange = \<lparr>min_pr = JNum 10, max_pr = JNum 20\<rparr>,
      confidence = JNum 50,
      requirements = JArr [JStr ''ISO 9001 certification'', JStr ''Min. 3 years experience''],
      compliance = JNum 60\<rparr>"

definition sampleState :: "int dashboard" where
  "sampleState = \<lparr>tenderId = ''T-1001'', analysis = Some olderResult, loading = False\<rparr>"

definition freshState :: "int dashboard" where
  "freshState = \<lparr>tenderId = ''T-1001'', analysis = None, loading = False\<rparr>"

definition noRequirementsBody :: "(string \<times> int jsval) list" where
  "noRequirementsBody =
     [(''title'', JStr ''Road Maintenance''),
      (''price_range'', JObj [(''min'', JNum 50000), (''max'', JNum 75000)]),
      (''confidence'', JNum 82),
      (''compliance'', JNum 91)]"

text \<open>
  A stand-in for the host's \<^verbatim>\<open>toLocaleString\<close> in the examples: the en-US grouping
  of the numbers the examples use.
\<close>

definition sampleLocale :: "int jsval \<Rightarrow> js_error + string" where
  "sampleLocale v =
     (case v of
        JNum n \<Rightarrow>
          Inr (case map_of [(10, ''10''), (20, ''20''), (50000, ''50,000''), (75000, ''75,000'')] n of
                 Some s \<Rightarrow> s
               | None \<Rightarrow> ''#'')
      | JStr s \<Rightarrow> Inr s
      | _ \<Rightarrow> Inr ''[object]'')"

section \<open>Properties of the component\<close>

lemma analyzeTender_caught:
  "tryBlock (st\<lparr>loading := True\<rparr>) outcome = Inl err \<Longrightarrow>
   analyzeTender st outcome =
     (st\<lparr>loading := False\<rparr>,
      [analyzeRequest (tenderId st), ConsoleError ''Error analyzing tender:'' err,
       Alert ''Failed to analyze tender. Please try again.''])"
  by (simp add: analyzeTender_def)

lemma analyzeTender_stored:
  "tryBlock (st\<lparr>loading := True\<rparr>) outcome = Inr st' \<Longrightarrow>
   analyzeTender st outcome = (st'\<lparr>loading := False\<rparr>, [analyzeRequest (tenderId st)])"
  by (simp add: analyzeTender_def)

lemma tryBlock_reject: "tryBlock st (Inl e) = Inl e"
  by (simp add: tryBlock_def bindE_def)

lemma tryBlock_not_ok: "\<not> ok r \<Longrightarrow> tryBlock st (Inr r) = Inl (Error ''Analysis failed'')"
  by (simp add: tryBlock_def bindE_def)

lemma tryBlock_parse_failure: "ok r \<Longrightarrow> json r = Inl e \<Longrightarrow> tryBlock st (Inr r) = Inl e"
  by (simp add: tryBlock_def bindE_def)

lemma tryBlock_parsed:
  "ok r \<Longrightarrow> json r = Inr data \<Longrightarrow>
   tryBlock st (Inr r) = bindE (transform data) (\<lambda>a. Inr (st\<lparr>analysis := Some a\<rparr>))"
  by (simp add: tryBlock_def bindE_def)

lemma getProp_nullish: "nullish v \<Longrightarrow> getProp v k = Inl TypeError"
  by (cases v) simp_all

lemma getProp_not_nullish: "\<not> nullish v \<Longrightarrow> \<exists>x. getProp v k = Inr x"
  by (cases v) simp_all

lemma getProp_cases: "getProp v k = Inl e \<Longrightarrow> e = TypeError \<and> nullish v"
  by (cases v) simp_all

lemma transform_throws:
  assumes "getProp data ''price_range'' = Inl e \<or> (\<exists>pr. getProp data ''price_range'' = Inr pr \<and> nullish pr)"
  shows "transform data = Inl TypeError"
proof (cases "nullish data")
  case True
  then show ?thesis by (simp add: transform_def bindE_def getProp_nullish)
next
  case False
  then obtain t where t: "getProp data ''title'' = Inr t"
    using getProp_not_nullish by blast
  from False assms obtain pr where pr: "getProp data ''price_range'' = Inr pr" "nullish pr"
    using getProp_cases by blast
  show ?thesis
    by (simp add: transform_def bindE_def t pr getProp_nullish)
qed

lemma transform_reads:
  assumes "getProp data ''price_range'' = Inr pr" "\<not> nullish pr"
  shows "\<exists>t mn mx c r cp.
           getProp data ''title'' = Inr t \<and> getProp pr ''min'' = Inr mn \<and>
           getProp pr ''max'' = Inr mx \<and> getProp data ''confidence'' = Inr c \<and>
           getProp data ''requirements'' = Inr r \<and> getProp data ''compliance'' = Inr cp \<and>
           transform data =
             Inr \<lparr>title = t, priceRange = \<lparr>min_pr = mn, max_pr = mx\<rparr>,
                  confidence = c, requirements = r, compliance = cp\<rparr>"
proof -
  from assms(1) have nd: "\<not> nullish data"
    using getProp_nullish by fastforce
  obtain t where t: "getProp data ''title'' = Inr t" using nd getProp_not_nullish by blast
  obtain c where c: "getProp data ''confidence'' = Inr c" using nd getProp_not_nullish by blast
  obtain r where r: "getProp data ''requirements'' = Inr r" using nd getProp_not_nullish by blast
  obtain cp where cp: "getProp data ''compliance'' = Inr cp" using nd getProp_not_nullish by blast
  obtain mn where mn: "getProp pr ''min'' = Inr mn" using assms(2) getProp_not_nullish by blast
  obtain mx where mx: "getProp pr ''max'' = Inr mx" using assms(2) getProp_not_nullish by blast
  show ?thesis
    by (simp add: transform_def bindE_def t c r cp mn mx assms(1))
qed

lemma pricePanel_throws:
  "nullish (min_pr (priceRange a)) \<or> nullish (max_pr (priceRange a)) \<Longrightarrow>
   isl (pricePanel toLS a)"
  by (auto simp: pricePanel_def bindE_def toLocaleString_def split: sum.split)

lemma requirementsPanel_throws:
  "\<not> isArr (requirements a) \<Longrightarrow> requirementsPanel a = Inl TypeError"
  by (cases "requirements a") (simp_all add: requirementsPanel_def bindE_def)

lemma resultPanels_throws:
  "nullish (min_pr (priceRange a)) \<or> nullish (max_pr (priceRange a))
     \<or> \<not> isArr (requirements a) \<Longrightarrow>
   isl (resultPanels toLS (Some a))"
  using pricePanel_throws [of a toLS] requirementsPanel_throws [of a]
  by (auto simp: resultPanels_def bindE_def split: sum.split)

lemma TenderDashboard_throws:
  "analysis st = Some a \<Longrightarrow> isl (resultPanels toLS (Some a)) \<Longrightarrow> isl (TenderDashboard toLS st)"
  by (auto simp: TenderDashboard_def bindE_def split: sum.split)

lemma TenderDashboard_absent:
  "analysis st = None \<Longrightarrow>
   TenderDashboard toLS st = Inr (page [heading, inputTrigger st, Expr JNull])"
  by (simp add: TenderDashboard_def resultPanels_def bindE_def)

lemma tryBlockSync_caught:
  "tryBlock st outcome = Inl e \<Longrightarrow> tryBlockSync toLS st outcome = Inl (e, Some st)"
  by (auto simp: tryBlock_def tryBlockSync_def bindE_def split: sum.splits if_splits)

lemma tryBlockSync_stored:
  "tryBlock st outcome = Inr st' \<Longrightarrow>
   tryBlockSync toLS st outcome =
     (case TenderDashboard toLS st' of Inl e \<Rightarrow> Inl (e, None) | Inr tree \<Rightarrow> Inr st')"
  by (auto simp: tryBlock_def tryBlockSync_def setAnalysisSync_def bindE_def
      split: sum.splits if_splits)

lemma analyzeTenderSync_caught:
  "tryBlock (st\<lparr>loading := True\<rparr>) outcome = Inl e \<Longrightarrow>
   analyzeTenderSync toLS st outcome =
     (Some (st\<lparr>loading := False\<rparr>),
      [analyzeRequest (tenderId st), ConsoleError ''Error analyzing tender:'' e,
       Alert ''Failed to analyze tender. Please try again.''])"
  by (simp add: analyzeTenderSync_def tryBlockSync_caught)

lemma analyzeTenderSync_render_throws:
  "tryBlock (st\<lparr>loading := True\<rparr>) outcome = Inr st' \<Longrightarrow>
   TenderDashboard toLS st' = Inl e \<Longrightarrow>
   analyzeTenderSync toLS st outcome =
     (None,
      [analyzeRequest (tenderId st), ConsoleError ''Error analyzing tender:'' e,
       Alert ''Failed to analyze tender. Please try again.''])"
  by (simp add: analyzeTenderSync_def tryBlockSync_stored)

lemma analyzeTenderSync_render_returns:
  "tryBlock (st\<lparr>loading := True\<rparr>) outcome = Inr st' \<Longrightarrow>
   TenderDashboard toLS st' = Inr tree \<Longrightarrow>
   analyzeTenderSync toLS st outcome =
     (Some (st'\<lparr>loading := False\<rparr>), [analyzeRequest (tenderId st)])"
  by (simp add: analyzeTenderSync_def tryBlockSync_stored)

lemma TenderDashboard_error_of_result:
  "analysis st = analysis st' \<Longrightarrow>
   TenderDashboard toLS st = Inl e \<longleftrightarrow> TenderDashboard toLS st' = Inl e"
  by (auto simp: TenderDashboard_def bindE_def split: sum.splits)

lemma no_button_in_pricePanel:
  "pricePanel toLS a = Inr p \<Longrightarrow> findElems ''button'' p = []"
  by (auto simp: pricePanel_def bindE_def className_def split: sum.splits)

lemma no_button_in_compliancePanel: "findElems ''button'' (compliancePanel a) = []"
  by (simp add: compliancePanel_def className_def)

lemma no_button_in_requirementItem: "findElems ''button'' (requirementItem x i) = []"
  by (simp add: requirementItem_def className_def)

lemma no_button_in_requirementsPanel:
  "requirementsPanel a = Inr p \<Longrightarrow> findElems ''button'' p = []"
  by (cases "requirements a")
     (auto simp: requirementsPanel_def bindE_def className_def no_button_in_requirementItem)

lemma no_button_in_resultPanels:
  "resultPanels toLS an = Inr r \<Longrightarrow> findElems ''button'' r = []"
  by (cases an)
     (auto simp: resultPanels_def bindE_def className_def no_button_in_pricePanel
        no_button_in_compliancePanel no_button_in_requirementsPanel split: sum.splits)

lemma button_of_inputTrigger:
  "findElems ''button'' (inputTrigger st) =
     [Elem ''button''
        [(''onClick'', AHandler ''analyzeTender''),
         (''disabled'', ABool (tenderId st = [] \<or> loading st)),
         className ''px-6 py-2 bg-blue-600 text-white rounded-lg hover:bg-blue-700 disabled:opacity-50 flex items-center gap-2'']
        [Elem ''Search'' [(''size'', ANum 20)] [],
         Expr (JStr (if loading st then ''Analyzing...'' else ''Analyze''))]]"
  by (auto simp: inputTrigger_def buttonDisabled_def truthyStr_def)

lemma button_of_TenderDashboard:
  "TenderDashboard toLS st = Inr tree \<Longrightarrow>
   findElems ''button'' tree = findElems ''button'' (inputTrigger st)"
  by (auto simp: TenderDashboard_def bindE_def page_def heading_def no_button_in_resultPanels
      split: sum.splits)

text \<open>
  Claim C1. When the tender id is not empty and the response has a success status and a
  body with the fields \<^verbatim>\<open>title\<close>, \<^verbatim>\<open>price_range.min\<close>, \<^verbatim>\<open>price_range.max\<close>,
  \<^verbatim>\<open>confidence\<close>, \<^verbatim>\<open>requirements\<close> and \<^verbatim>\<open>compliance\<close>, the run stores a result
  whose fields are exactly those values, under the camelCase names; whatever was stored
  before is gone, nothing else of the state changes but the busy flag, which ends false,
  and the only effect is the request.
\<close>

theorem analyzeTender_stores_mapped_fields:
  assumes "tenderId st \<noteq> []"
    and "map_of body ''title'' = Some t"
    and "map_of body ''price_range'' = Some (JObj pr)"
    and "map_of pr ''min'' = Some mn"
    and "map_of pr ''max'' = Some mx"
    and "map_of body ''confidence'' = Some c"
    and "map_of body ''requirements'' = Some r"
    and "map_of body ''compliance'' = Some cp"
  shows "analyzeTender st (Inr \<lparr>ok = True, json = Inr (JObj body)\<rparr>) =
           (st\<lparr>analysis :=
                 Some \<lparr>title = t, priceRange = \<lparr>min_pr = mn, max_pr = mx\<rparr>,
                       confidence = c, requirements = r, compliance = cp\<rparr>,
               loading := False\<rparr>,
            [analyzeRequest (tenderId st)])"
proof -
  have "transform (JObj body) =
          Inr \<lparr>title = t, priceRange = \<lparr>min_pr = mn, max_pr = mx\<rparr>,
               confidence = c, requirements = r, compliance = cp\<rparr>"
    using assms by (simp add: transform_def bindE_def)
  then have "tryBlock (st\<lparr>loading := True\<rparr>) (Inr \<lparr>ok = True, json = Inr (JObj body)\<rparr>) =
          Inr (st\<lparr>loading := True,
                  analysis := Some \<lparr>title = t, priceRange = \<lparr>min_pr = mn, max_pr = mx\<rparr>,
                       confidence = c, requirements = r, compliance = cp\<rparr>\<rparr>)"
    by (simp add: tryBlock_parsed bindE_def)
  then show ?thesis
    by (simp add: analyzeTender_stored)
qed

theorem analyzeTender_stores_mapped_fields_witness:
  "analyzeTender sampleState (Inr \<lparr>ok = True, json = Inr (JObj sampleBody)\<rparr>) =
     (\<lparr>tenderId = ''T-1001'', analysis = Some sampleResult, loading = False\<rparr>,
      [analyzeRequest ''T-1001''])"
  using analyzeTender_stores_mapped_fields
    [of sampleState sampleBody "JStr ''Road Maintenance''"
      "[(''min'', JNum 50000), (''max'', JNum 75000)]"
      "JNum 50000" "JNum 75000" "JNum 82" "JArr [JStr ''ISO 9001'']" "JNum 91"]
  by (simp add: sampleState_def sampleBody_def sampleResult_def)

text \<open>
  Claim C2. On each failing outcome (\<^verbatim>\<open>fetch\<close> rejects with \<open>e\<close>; the response's
  status is not a success; \<^verbatim>\<open>response.json()\<close> rejects with \<open>e\<close>) the stored result
  is what it was before the run, present or absent; the error \<open>err\<close> behind the failure
  is logged with \<^verbatim>\<open>console.error\<close>, and then the alert that the analysis failed is shown.
\<close>

theorem failure_keeps_result:
  assumes "outcome = Inl e \<and> err = e
         \<or> (\<exists>r. outcome = Inr r \<and> \<not> ok r \<and> err = Error ''Analysis failed'')
         \<or> (\<exists>r. outcome = Inr r \<and> ok r \<and> json r = Inl e \<and> err = e)"
  shows "analysis (fst (analyzeTender st outcome)) = analysis st
       \<and> snd (analyzeTender st outcome) =
           [analyzeRequest (tenderId st),
            ConsoleError ''Error analyzing tender:'' err,
            Alert ''Failed to analyze tender. Please try again.'']"
proof -
  from assms have "tryBlock (st\<lparr>loading := True\<rparr>) outcome = Inl err"
    by (auto simp: tryBlock_reject tryBlock_not_ok tryBlock_parse_failure)
  then show ?thesis
    by (simp add: analyzeTender_caught)
qed

theorem failure_keeps_result_witness:
  "analysis (fst (analyzeTender sampleState (Inr \<lparr>ok = False, json = Inr (JObj sampleBody)\<rparr>))) =
     Some olderResult
   \<and> snd (analyzeTender sampleState (Inr \<lparr>ok = False, json = Inr (JObj sampleBody)\<rparr>)) =
       [analyzeRequest ''T-1001'',
        ConsoleError ''Error analyzing tender:'' (Error ''Analysis failed''),
        Alert ''Failed to analyze tender. Please try again.'']
   \<and> analysis (fst (analyzeTender freshState (Inl TypeError))) = None
   \<and> analysis (fst (analyzeTender sampleState (Inr \<lparr>ok = True, json = Inl SyntaxError\<rparr>))) =
       Some olderResult"
  using failure_keeps_result
      [where outcome = "Inr \<lparr>ok = False, json = Inr (JObj sampleBody)\<rparr>"
         and err = "Error ''Analysis failed''" and st = sampleState and e = TypeError]
    failure_keeps_result
      [where outcome = "Inl TypeError" and err = TypeError and st = freshState and e = TypeError]
    failure_keeps_result
      [where outcome = "Inr \<lparr>ok = True, json = Inl SyntaxError\<rparr>"
         and err = SyntaxError and st = sampleState and e = SyntaxError]
  by (simp add: sampleState_def freshState_def)

text \<open>
  Claim C3. After a run, whatever the state before and whatever the world answered (a
  stored result, a non-success status, a rejected \<^verbatim>\<open>fetch\<close>, an unparsable or
  malformed body), the busy flag is false.
\<close>

theorem loading_false_after:
  "\<not> loading (fst (analyzeTender st outcome))"
  by (simp add: analyzeTender_def Let_def split: sum.split prod.split)

theorem loading_false_after_witness:
  "\<not> loading (fst (analyzeTender sampleState (Inr \<lparr>ok = True, json = Inr (JObj sampleBody)\<rparr>)))
   \<and> \<not> loading (fst (analyzeTender sampleState (Inl TypeError)))"
  using loading_false_after [of sampleState "Inr \<lparr>ok = True, json = Inr (JObj sampleBody)\<rparr>"]
    loading_false_after [of sampleState "Inl TypeError"]
  by simp

text \<open>
  Claim C4. In every state the trigger button is disabled exactly when the tender id is
  the empty string or the busy flag is set: the value of line 66 is that disjunction, the
  input and trigger section has exactly one \<^verbatim>\<open>button\<close>, whose \<^verbatim>\<open>disabled\<close> prop is
  that value and whose \<^verbatim>\<open>onClick\<close> is \<^verbatim>\<open>analyzeTender\<close>, and it is the only button
  of every view the component renders.
\<close>

theorem button_disabled_iff:
  "(buttonDisabled st \<longleftrightarrow> tenderId st = [] \<or> loading st)
   \<and> findElems ''button'' (inputTrigger st) =
       [Elem ''button''
          [(''onClick'', AHandler ''analyzeTender''),
           (''disabled'', ABool (tenderId st = [] \<or> loading st)),
           className ''px-6 py-2 bg-blue-600 text-white rounded-lg hover:bg-blue-700 disabled:opacity-50 flex items-center gap-2'']
          [Elem ''Search'' [(''size'', ANum 20)] [],
           Expr (JStr (if loading st then ''Analyzing...'' else ''Analyze''))]]
   \<and> (\<forall>tree. TenderDashboard toLS st = Inr tree \<longrightarrow>
         findElems ''button'' tree = findElems ''button'' (inputTrigger st))"
proof (intro conjI allI impI)
  show "buttonDisabled st \<longleftrightarrow> tenderId st = [] \<or> loading st"
    by (auto simp: buttonDisabled_def truthyStr_def)
  show "findElems ''button'' (inputTrigger st) =
       [Elem ''button''
          [(''onClick'', AHandler ''analyzeTender''),
           (''disabled'', ABool (tenderId st = [] \<or> loading st)),
           className ''px-6 py-2 bg-blue-600 text-white rounded-lg hover:bg-blue-700 disabled:opacity-50 flex items-center gap-2'']
          [Elem ''Search'' [(''size'', ANum 20)] [],
           Expr (JStr (if loading st then ''Analyzing...'' else ''Analyze''))]]"
    by (rule button_of_inputTrigger)
  fix tree
  assume "TenderDashboard toLS st = Inr tree"
  then show "findElems ''button'' tree = findElems ''button'' (inputTrigger st)"
    by (rule button_of_TenderDashboard)
qed

theorem button_disabled_iff_witness:
  "\<not> buttonDisabled sampleState
   \<and> buttonDisabled (sampleState\<lparr>loading := True\<rparr>)
   \<and> buttonDisabled (sampleState\<lparr>tenderId := []\<rparr>)
   \<and> (\<exists>tree. TenderDashboard sampleLocale sampleState = Inr tree
        \<and> findElems ''button'' tree =
            [Elem ''button''
               [(''onClick'', AHandler ''analyzeTender''),
                (''disabled'', ABool False),
                className ''px-6 py-2 bg-blue-600 text-white rounded-lg hover:bg-blue-700 disabled:opacity-50 flex items-center gap-2'']
               [Elem ''Search'' [(''size'', ANum 20)] [], Expr (JStr ''Analyze'')]])
   \<and> (\<exists>tree. TenderDashboard sampleLocale (sampleState\<lparr>loading := True\<rparr>) = Inr tree
        \<and> findElems ''button'' tree =
            [Elem ''button''
               [(''onClick'', AHandler ''analyzeTender''),
                (''disabled'', ABool True),
                className ''px-6 py-2 bg-blue-600 text-white rounded-lg hover:bg-blue-700 disabled:opacity-50 flex items-center gap-2'']
               [Elem ''Search'' [(''size'', ANum 20)] [], Expr (JStr ''Analyzing...'')]])"
proof -
  have "\<not> isl (TenderDashboard sampleLocale sampleState)"
    by (simp add: TenderDashboard_def resultPanels_def pricePanel_def requirementsPanel_def
        toLocaleString_def sampleLocale_def bindE_def sampleState_def olderResult_def)
  then obtain t1 where t1: "TenderDashboard sampleLocale sampleState = Inr t1"
    by (cases "TenderDashboard sampleLocale sampleState") simp_all
  have "\<not> isl (TenderDashboard sampleLocale (sampleState\<lparr>loading := True\<rparr>))"
    by (simp add: TenderDashboard_def resultPanels_def pricePanel_def requirementsPanel_def
        toLocaleString_def sampleLocale_def bindE_def sampleState_def olderResult_def)
  then obtain t2 where t2: "TenderDashboard sampleLocale (sampleState\<lparr>loading := True\<rparr>) = Inr t2"
    by (cases "TenderDashboard sampleLocale (sampleState\<lparr>loading := True\<rparr>)") simp_all
  note a = button_disabled_iff [of sampleState sampleLocale]
  note b = button_disabled_iff [of "sampleState\<lparr>loading := True\<rparr>" sampleLocale]
  note c = button_disabled_iff [of "sampleState\<lparr>tenderId := []\<rparr>" sampleLocale]
  from a t1 have b1: "findElems ''button'' t1 =
            [Elem ''button''
               [(''onClick'', AHandler ''analyzeTender''),
                (''disabled'', ABool False),
                className ''px-6 py-2 bg-blue-600 text-white rounded-lg hover:bg-blue-700 disabled:opacity-50 flex items-center gap-2'']
               [Elem ''Search'' [(''size'', ANum 20)] [], Expr (JStr ''Analyze'')]]"
    by (simp add: sampleState_def)
  from b t2 have b2: "findElems ''button'' t2 =
            [Elem ''button''
               [(''onClick'', AHandler ''analyzeTender''),
                (''disabled'', ABool True),
                className ''px-6 py-2 bg-blue-600 text-white rounded-lg hover:bg-blue-700 disabled:opacity-50 flex items-center gap-2'']
               [Elem ''Search'' [(''size'', ANum 20)] [], Expr (JStr ''Analyzing...'')]]"
    by (simp add: sampleState_def)
  from a have d1: "\<not> buttonDisabled sampleState" by (simp add: sampleState_def)
  from b have d2: "buttonDisabled (sampleState\<lparr>loading := True\<rparr>)" by simp
  from c have d3: "buttonDisabled (sampleState\<lparr>tenderId := []\<rparr>)" by simp
  from d1 d2 d3 t1 b1 t2 b2 show ?thesis by blast
qed

text \<open>
  Claim C5. A response whose status is not a success is a failure whatever its body is:
  the run is, in its final state and in its effects, the run of a \<^verbatim>\<open>fetch\<close> that
  rejected with \<^verbatim>\<open>Error("Analysis failed")\<close>, and ends in the same log entry and alert.
\<close>

theorem not_ok_is_failure:
  assumes "\<not> ok r"
  shows "analyzeTender st (Inr r) = analyzeTender st (Inl (Error ''Analysis failed''))
       \<and> analyzeTender st (Inr r) =
           (st\<lparr>loading := False\<rparr>,
            [analyzeRequest (tenderId st),
             ConsoleError ''Error analyzing tender:'' (Error ''Analysis failed''),
             Alert ''Failed to analyze tender. Please try again.''])"
  using assms by (simp add: analyzeTender_caught tryBlock_reject tryBlock_not_ok)

theorem not_ok_is_failure_witness:
  "analyzeTender sampleState (Inr \<lparr>ok = False, json = Inr (JObj sampleBody)\<rparr>) =
     analyzeTender sampleState (Inl (Error ''Analysis failed''))
   \<and> analyzeTender sampleState (Inr \<lparr>ok = False, json = Inr (JObj sampleBody)\<rparr>) =
       (sampleState,
        [analyzeRequest ''T-1001'',
         ConsoleError ''Error analyzing tender:'' (Error ''Analysis failed''),
         Alert ''Failed to analyze tender. Please try again.''])"
  using not_ok_is_failure [of "\<lparr>ok = False, json = Inr (JObj sampleBody)\<rparr>" sampleState]
  by (auto simp add: sampleState_def)

text \<open>
  Claim C6, as stated, fails. A success response with the body \<^verbatim>\<open>{}\<close> lacks every
  expected field; reading \<^verbatim>\<open>data.price_range.min\<close> throws inside the \<^verbatim>\<open>try\<close> block
  before \<^verbatim>\<open>setAnalysis\<close> is reached, so on either kind of root the failure is caught
  and surfaced by the alert, nothing is stored, and the view renders without any failure.
\<close>

theorem malformed_body_counterexample:
  "analyzeTender freshState (Inr \<lparr>ok = True, json = Inr (JObj [])\<rparr>) =
     (freshState,
      [analyzeRequest ''T-1001'',
       ConsoleError ''Error analyzing tender:'' TypeError,
       Alert ''Failed to analyze tender. Please try again.''])
   \<and> analyzeTenderSync sampleLocale freshState (Inr \<lparr>ok = True, json = Inr (JObj [])\<rparr>) =
     (Some freshState,
      [analyzeRequest ''T-1001'',
       ConsoleError ''Error analyzing tender:'' TypeError,
       Alert ''Failed to analyze tender. Please try again.''])
   \<and> TenderDashboard sampleLocale freshState =
       Inr (page [heading, inputTrigger freshState, Expr JNull])"
  by (simp add: freshState_def analyzeTender_def analyzeTenderSync_def tryBlock_def
      tryBlockSync_def transform_def bindE_def TenderDashboard_def resultPanels_def)

text \<open>
  Claim C6, amended. The body of a success response is never validated. If the body is
  \<^verbatim>\<open>null\<close> (or \<^verbatim>\<open>undefined\<close>) or its \<^verbatim>\<open>price_range\<close> is absent or \<^verbatim>\<open>null\<close>, the
  reads throw a TypeError inside the \<^verbatim>\<open>try\<close> block, which is caught: logged, alerted,
  the stored result untouched, on either kind of root. In every other case the values read
  are handed to \<^verbatim>\<open>setAnalysis\<close> as they are, absent fields as \<^verbatim>\<open>undefined\<close>, and
  rendering them throws whenever \<^verbatim>\<open>min\<close> or \<^verbatim>\<open>max\<close> is absent or \<^verbatim>\<open>null\<close> or
  \<^verbatim>\<open>requirements\<close> is not an array. Where React renders after the handler, the result
  is stored with no alert and the render that follows throws, uncaught. Where React
  renders inside \<^verbatim>\<open>setAnalysis\<close>, the same exception is thrown inside the \<^verbatim>\<open>try\<close>
  block: it is caught, logged and alerted, and the view is unmounted.
\<close>

theorem malformed_body_unvalidated:
  assumes "res = analyzeTender st (Inr \<lparr>ok = True, json = Inr data\<rparr>)"
    and "resSync = analyzeTenderSync toLS st (Inr \<lparr>ok = True, json = Inr data\<rparr>)"
  shows "(nullish data \<or> (\<exists>pr. getProp data ''price_range'' = Inr pr \<and> nullish pr) \<longrightarrow>
            res = (st\<lparr>loading := False\<rparr>,
                   [analyzeRequest (tenderId st),
                    ConsoleError ''Error analyzing tender:'' TypeError,
                    Alert ''Failed to analyze tender. Please try again.''])
          \<and> resSync = (Some (fst res), snd res))
       \<and> (\<forall>pr. getProp data ''price_range'' = Inr pr \<and> \<not> nullish pr \<longrightarrow>
            (\<exists>t mn mx c r cp.
               getProp data ''title'' = Inr t \<and> getProp pr ''min'' = Inr mn \<and>
               getProp pr ''max'' = Inr mx \<and> getProp data ''confidence'' = Inr c \<and>
               getProp data ''requirements'' = Inr r \<and> getProp data ''compliance'' = Inr cp \<and>
               res = (st\<lparr>analysis :=
                            Some \<lparr>title = t, priceRange = \<lparr>min_pr = mn, max_pr = mx\<rparr>,
                                  confidence = c, requirements = r, compliance = cp\<rparr>,
                          loading := False\<rparr>,
                      [analyzeRequest (tenderId st)]) \<and>
               (nullish mn \<or> nullish mx \<or> \<not> isArr r \<longrightarrow>
                  (\<exists>e. TenderDashboard toLS (fst res) = Inl e \<and>
                       resSync =
                         (None,
                          [analyzeRequest (tenderId st),
                           ConsoleError ''Error analyzing tender:'' e,
                           Alert ''Failed to analyze tender. Please try again.''])))))"
proof (intro conjI impI allI)
  assume "nullish data \<or> (\<exists>pr. getProp data ''price_range'' = Inr pr \<and> nullish pr)"
  then have "getProp data ''price_range'' = Inl TypeError
           \<or> (\<exists>pr. getProp data ''price_range'' = Inr pr \<and> nullish pr)"
    using getProp_nullish by blast
  then have "transform data = Inl TypeError"
    by (rule transform_throws)
  then have tb: "tryBlock (st\<lparr>loading := True\<rparr>) (Inr \<lparr>ok = True, json = Inr data\<rparr>) = Inl TypeError"
    by (simp add: tryBlock_parsed bindE_def)
  then show r: "res = (st\<lparr>loading := False\<rparr>,
                   [analyzeRequest (tenderId st),
                    ConsoleError ''Error analyzing tender:'' TypeError,
                    Alert ''Failed to analyze tender. Please try again.''])"
    by (simp add: assms analyzeTender_caught)
  from tb show "resSync = (Some (fst res), snd res)"
    by (simp add: r assms(2) analyzeTenderSync_caught)
next
  fix pr
  assume "getProp data ''price_range'' = Inr pr \<and> \<not> nullish pr"
  then obtain t mn mx c r cp where
    reads: "getProp data ''title'' = Inr t" "getProp pr ''min'' = Inr mn"
      "getProp pr ''max'' = Inr mx" "getProp data ''confidence'' = Inr c"
      "getProp data ''requirements'' = Inr r" "getProp data ''compliance'' = Inr cp"
    and tr: "transform data =
             Inr \<lparr>title = t, priceRange = \<lparr>min_pr = mn, max_pr = mx\<rparr>,
                  confidence = c, requirements = r, compliance = cp\<rparr>"
    using transform_reads [of data pr] by blast
  let ?a = "\<lparr>title = t, priceRange = \<lparr>min_pr = mn, max_pr = mx\<rparr>,
             confidence = c, requirements = r, compliance = cp\<rparr>"
  let ?st' = "st\<lparr>loading := True, analysis := Some ?a\<rparr>"
  have tb: "tryBlock (st\<lparr>loading := True\<rparr>) (Inr \<lparr>ok = True, json = Inr data\<rparr>) = Inr ?st'"
    by (simp add: tryBlock_parsed tr bindE_def)
  then have res: "res = (st\<lparr>analysis := Some ?a, loading := False\<rparr>, [analyzeRequest (tenderId st)])"
    by (simp add: assms analyzeTender_stored)
  have fails: "\<exists>e. TenderDashboard toLS (fst res) = Inl e \<and>
                       resSync =
                         (None,
                          [analyzeRequest (tenderId st),
                           ConsoleError ''Error analyzing tender:'' e,
                           Alert ''Failed to analyze tender. Please try again.''])"
    if "nullish mn \<or> nullish mx \<or> \<not> isArr r"
  proof -
    have "isl (resultPanels toLS (Some ?a))"
      using that by (intro resultPanels_throws) simp
    then have "isl (TenderDashboard toLS ?st')"
      by (intro TenderDashboard_throws [where a = ?a]) simp_all
    then obtain e where e: "TenderDashboard toLS ?st' = Inl e"
      by (cases "TenderDashboard toLS ?st'") simp_all
    then have "TenderDashboard toLS (fst res) = Inl e"
      using TenderDashboard_error_of_result [of ?st' "fst res" toLS e] by (simp add: res)
    moreover have "resSync =
                         (None,
                          [analyzeRequest (tenderId st),
                           ConsoleError ''Error analyzing tender:'' e,
                           Alert ''Failed to analyze tender. Please try again.''])"
      using analyzeTenderSync_render_throws [OF tb e] by (simp add: assms(2))
    ultimately show ?thesis by blast
  qed
  show "\<exists>t mn mx c r cp.
               getProp data ''title'' = Inr t \<and> getProp pr ''min'' = Inr mn \<and>
               getProp pr ''max'' = Inr mx \<and> getProp data ''confidence'' = Inr c \<and>
               getProp data ''requirements'' = Inr r \<and> getProp data ''compliance'' = Inr cp \<and>
               res = (st\<lparr>analysis :=
                            Some \<lparr>title = t, priceRange = \<lparr>min_pr = mn, max_pr = mx\<rparr>,
                                  confidence = c, requirements = r, compliance = cp\<rparr>,
                          loading := False\<rparr>,
                      [analyzeRequest (tenderId st)]) \<and>
               (nullish mn \<or> nullish mx \<or> \<not> isArr r \<longrightarrow>
                  (\<exists>e. TenderDashboard toLS (fst res) = Inl e \<and>
                       resSync =
                         (None,
                          [analyzeRequest (tenderId st),
                           ConsoleError ''Error analyzing tender:'' e,
                           Alert ''Failed to analyze tender. Please try again.''])))"
    using reads res fails by blast
qed

theorem malformed_body_unvalidated_witness:
  "analyzeTender sampleState (Inr \<lparr>ok = True, json = Inr JNull\<rparr>) =
     (sampleState,
      [analyzeRequest ''T-1001'',
       ConsoleError ''Error analyzing tender:'' TypeError,
       Alert ''Failed to analyze tender. Please try again.''])
   \<and> analyzeTenderSync sampleLocale sampleState (Inr \<lparr>ok = True, json = Inr JNull\<rparr>) =
     (Some sampleState,
      [analyzeRequest ''T-1001'',
       ConsoleError ''Error analyzing tender:'' TypeError,
       Alert ''Failed to analyze tender. Please try again.''])
   \<and> analyzeTender freshState (Inr \<lparr>ok = True, json = Inr (JObj noRequirementsBody)\<rparr>) =
       (\<lparr>tenderId = ''T-1001'',
         analysis = Some \<lparr>title = JStr ''Road Maintenance'',
                          priceRange = \<lparr>min_pr = JNum 50000, max_pr = JNum 75000\<rparr>,
                          confidence = JNum 82, requirements = JUndefined,
                          compliance = JNum 91\<rparr>,
         loading = False\<rparr>,
        [analyzeRequest ''T-1001''])
   \<and> TenderDashboard sampleLocale
        (fst (analyzeTender freshState (Inr \<lparr>ok = True, json = Inr (JObj noRequirementsBody)\<rparr>))) =
       Inl TypeError
   \<and> analyzeTenderSync sampleLocale freshState
        (Inr \<lparr>ok = True, json = Inr (JObj noRequirementsBody)\<rparr>) =
       (None,
        [analyzeRequest ''T-1001'',
         ConsoleError ''Error analyzing tender:'' TypeError,
         Alert ''Failed to analyze tender. Please try again.''])"
proof -
  note w1 = malformed_body_unvalidated
      [OF refl refl, where st = sampleState and data = JNull and toLS = sampleLocale]
  note w2 = malformed_body_unvalidated
      [OF refl refl, where st = freshState and data = "JObj noRequirementsBody"
         and toLS = sampleLocale]
  from w1 have a: "analyzeTender sampleState (Inr \<lparr>ok = True, json = Inr JNull\<rparr>) =
     (sampleState,
      [analyzeRequest ''T-1001'',
       ConsoleError ''Error analyzing tender:'' TypeError,
       Alert ''Failed to analyze tender. Please try again.''])"
    by (simp add: sampleState_def)
  from w1 have "analyzeTenderSync sampleLocale sampleState (Inr \<lparr>ok = True, json = Inr JNull\<rparr>) =
     (Some (fst (analyzeTender sampleState (Inr \<lparr>ok = True, json = Inr JNull\<rparr>))),
      snd (analyzeTender sampleState (Inr \<lparr>ok = True, json = Inr JNull\<rparr>)))"
    by simp
  with a have b: "analyzeTenderSync sampleLocale sampleState (Inr \<lparr>ok = True, json = Inr JNull\<rparr>) =
     (Some sampleState,
      [analyzeRequest ''T-1001'',
       ConsoleError ''Error analyzing tender:'' TypeError,
       Alert ''Failed to analyze tender. Please try again.''])"
    by simp
  from w2 have c: "analyzeTender freshState (Inr \<lparr>ok = True, json = Inr (JObj noRequirementsBody)\<rparr>) =
       (\<lparr>tenderId = ''T-1001'',
         analysis = Some \<lparr>title = JStr ''Road Maintenance'',
                          priceRange = \<lparr>min_pr = JNum 50000, max_pr = JNum 75000\<rparr>,
                          confidence = JNum 82, requirements = JUndefined,
                          compliance = JNum 91\<rparr>,
         loading = False\<rparr>,
        [analyzeRequest ''T-1001''])"
    by (auto simp add: freshState_def noRequirementsBody_def)
  have d: "TenderDashboard sampleLocale
        (fst (analyzeTender freshState (Inr \<lparr>ok = True, json = Inr (JObj noRequirementsBody)\<rparr>))) =
       Inl TypeError"
    by (simp add: c TenderDashboard_def resultPanels_def pricePanel_def requirementsPanel_def
        toLocaleString_def sampleLocale_def bindE_def)
  from w2 have "\<exists>e. TenderDashboard sampleLocale
        (fst (analyzeTender freshState (Inr \<lparr>ok = True, json = Inr (JObj noRequirementsBody)\<rparr>))) = Inl e
      \<and> analyzeTenderSync sampleLocale freshState
        (Inr \<lparr>ok = True, json = Inr (JObj noRequirementsBody)\<rparr>) =
       (None,
        [analyzeRequest ''T-1001'',
         ConsoleError ''Error analyzing tender:'' e,
         Alert ''Failed to analyze tender. Please try again.''])"
    by (auto simp add: freshState_def noRequirementsBody_def)
  with d have e: "analyzeTenderSync sampleLocale freshState
        (Inr \<lparr>ok = True, json = Inr (JObj noRequirementsBody)\<rparr>) =
       (None,
        [analyzeRequest ''T-1001'',
         ConsoleError ''Error analyzing tender:'' TypeError,
         Alert ''Failed to analyze tender. Please try again.''])"
    by auto
  from a b c d e show ?thesis by blast
qed

text \<open>
  Claim C7. When the stored result's \<^verbatim>\<open>requirements\<close> is the array \<open>rs\<close> and the
  view renders, the list of the requirements panel has one item for each element of
  \<open>rs\<close>, at the same position: item \<open>i\<close> is the fixed check-mark icon followed by
  element \<open>i\<close>. The list element is a \<^verbatim>\<open>ul\<close>; its order is the order received.
\<close>

theorem requirements_rendered_in_order:
  assumes "analysis st = Some a"
    and "requirements a = JArr rs"
    and "TenderDashboard toLS st = Inr tree"
  shows "\<exists>price items.
           tree = page [heading, inputTrigger st,
                    Elem ''div'' [className ''grid grid-cols-1 md:grid-cols-2 gap-6'']
                      [price, compliancePanel a,
                       Elem ''div'' [className ''bg-white rounded-lg shadow-md p-6 md:col-span-2'']
                         [Elem ''h2'' [className ''text-xl font-semibold mb-4 flex items-center gap-2'']
                            [Elem ''FileText'' [className ''text-purple-600''] [],
                             Text ''Key Requirements''],
                          Elem ''ul'' [className ''space-y-2''] items]]]
         \<and> length items = length rs
         \<and> (\<forall>i<length rs.
               items ! i =
                 Elem ''li'' [(''key'', ANum i), className ''flex items-start gap-2'']
                   [Elem ''CheckCircle'' [(''size'', ANum 16), className ''text-green-500 mt-1''] [],
                    Elem ''span'' [] [Expr (rs ! i)]])"
proof -
  let ?items = "map (\<lambda>(index, x). requirementItem x index) (enumerate 0 rs)"
  have panel: "requirementsPanel a =
      Inr (Elem ''div'' [className ''bg-white rounded-lg shadow-md p-6 md:col-span-2'']
             [Elem ''h2'' [className ''text-xl font-semibold mb-4 flex items-center gap-2'']
                [Elem ''FileText'' [className ''text-purple-600''] [],
                 Text ''Key Requirements''],
              Elem ''ul'' [className ''space-y-2''] ?items])"
    by (simp add: requirementsPanel_def bindE_def assms(2))
  from assms(1,3) obtain price where price: "pricePanel toLS a = Inr price"
    by (auto simp: TenderDashboard_def resultPanels_def bindE_def split: sum.splits)
  have tree: "tree = page [heading, inputTrigger st,
                    Elem ''div'' [className ''grid grid-cols-1 md:grid-cols-2 gap-6'']
                      [price, compliancePanel a,
                       Elem ''div'' [className ''bg-white rounded-lg shadow-md p-6 md:col-span-2'']
                         [Elem ''h2'' [className ''text-xl font-semibold mb-4 flex items-center gap-2'']
                            [Elem ''FileText'' [className ''text-purple-600''] [],
                             Text ''Key Requirements''],
                          Elem ''ul'' [className ''space-y-2''] ?items]]]"
    using assms(1,3) by (simp add: TenderDashboard_def resultPanels_def bindE_def price panel)
  have len: "length ?items = length rs"
    by simp
  have nth: "?items ! i =
                 Elem ''li'' [(''key'', ANum i), className ''flex items-start gap-2'']
                   [Elem ''CheckCircle'' [(''size'', ANum 16), className ''text-green-500 mt-1''] [],
                    Elem ''span'' [] [Expr (rs ! i)]]" if "i < length rs" for i
    using that by (simp add: nth_enumerate_eq requirementItem_def)
  from tree len nth show ?thesis by blast
qed

theorem requirements_rendered_in_order_witness:
  "analysis sampleState = Some olderResult
   \<and> requirements olderResult =
       JArr [JStr ''ISO 9001 certification'', JStr ''Min. 3 years experience'']
   \<and> (\<exists>tree price items.
        TenderDashboard sampleLocale sampleState = Inr tree
      \<and> tree = page [heading, inputTrigger sampleState,
                 Elem ''div'' [className ''grid grid-cols-1 md:grid-cols-2 gap-6'']
                   [price, compliancePanel olderResult,
                    Elem ''div'' [className ''bg-white rounded-lg shadow-md p-6 md:col-span-2'']
                      [Elem ''h2'' [className ''text-xl font-semibold mb-4 flex items-center gap-2'']
                         [Elem ''FileText'' [className ''text-purple-600''] [],
                          Text ''Key Requirements''],
                       Elem ''ul'' [className ''space-y-2''] items]]]
      \<and> length items = 2
      \<and> items ! 0 =
          Elem ''li'' [(''key'', ANum 0), className ''flex items-start gap-2'']
            [Elem ''CheckCircle'' [(''size'', ANum 16), className ''text-green-500 mt-1''] [],
             Elem ''span'' [] [Expr (JStr ''ISO 9001 certification'')]]
      \<and> items ! 1 =
          Elem ''li'' [(''key'', ANum 1), className ''flex items-start gap-2'']
            [Elem ''CheckCircle'' [(''size'', ANum 16), className ''text-green-500 mt-1''] [],
             Elem ''span'' [] [Expr (JStr ''Min. 3 years experience'')]])"
proof -
  have a: "analysis sampleState = Some olderResult"
    by (simp add: sampleState_def)
  have r: "requirements olderResult =
             JArr [JStr ''ISO 9001 certification'', JStr ''Min. 3 years experience'']"
    by (simp add: olderResult_def)
  have "\<not> isl (TenderDashboard sampleLocale sampleState)"
    by (simp add: TenderDashboard_def resultPanels_def pricePanel_def requirementsPanel_def
        toLocaleString_def sampleLocale_def bindE_def sampleState_def olderResult_def)
  then obtain tree where t: "TenderDashboard sampleLocale sampleState = Inr tree"
    by (cases "TenderDashboard sampleLocale sampleState") simp_all
  from requirements_rendered_in_order [OF a r t] obtain price items where
    tree: "tree = page [heading, inputTrigger sampleState,
                 Elem ''div'' [className ''grid grid-cols-1 md:grid-cols-2 gap-6'']
                   [price, compliancePanel olderResult,
                    Elem ''div'' [className ''bg-white rounded-lg shadow-md p-6 md:col-span-2'']
                      [Elem ''h2'' [className ''text-xl font-semibold mb-4 flex items-center gap-2'']
                         [Elem ''FileText'' [className ''text-purple-600''] [],
                          Text ''Key Requirements''],
                       Elem ''ul'' [className ''space-y-2''] items]]]"
    and len: "length items = length [JStr ''ISO 9001 certification'', JStr ''Min. 3 years experience'' :: int jsval]"
    and nth: "\<forall>i<length [JStr ''ISO 9001 certification'', JStr ''Min. 3 years experience'' :: int jsval].
               items ! i =
                 Elem ''li'' [(''key'', ANum i), className ''flex items-start gap-2'']
                   [Elem ''CheckCircle'' [(''size'', ANum 16), className ''text-green-500 mt-1''] [],
                    Elem ''span'' [] [Expr ([JStr ''ISO 9001 certification'', JStr ''Min. 3 years experience''] ! i)]]"
    by blast
  from len have l2: "length items = 2" by simp
  from nth have i0: "items ! 0 =
          Elem ''li'' [(''key'', ANum 0), className ''flex items-start gap-2'']
            [Elem ''CheckCircle'' [(''size'', ANum 16), className ''text-green-500 mt-1''] [],
             Elem ''span'' [] [Expr (JStr ''ISO 9001 certification'')]]"
    by simp
  from nth have "1 < length [JStr ''ISO 9001 certification'', JStr ''Min. 3 years experience'' :: int jsval] \<longrightarrow> items ! 1 =
          Elem ''li'' [(''key'', ANum 1), className ''flex items-start gap-2'']
            [Elem ''CheckCircle'' [(''size'', ANum 16), className ''text-green-500 mt-1''] [],
             Elem ''span'' [] [Expr ([JStr ''ISO 9001 certification'', JStr ''Min. 3 years experience''] ! 1)]]"
    by blast
  then have i1: "items ! 1 =
          Elem ''li'' [(''key'', ANum 1), className ''flex items-start gap-2'']
            [Elem ''CheckCircle'' [(''size'', ANum 16), className ''text-green-500 mt-1''] [],
             Elem ''span'' [] [Expr (JStr ''Min. 3 years experience'')]]"
    by simp
  from a r t tree l2 i0 i1 show ?thesis by blast
qed

text \<open>
  Claim C8. Whatever the world answers, a run calls \<^verbatim>\<open>fetch\<close> exactly once: a POST to
  \<^verbatim>\<open>http://localhost:8000/api/analyze-tender\<close> with a JSON content type, whose body is
  the serialisation of the object with \<^verbatim>\<open>tender_id\<close> the current tender id and
  \<^verbatim>\<open>tender_url\<close> \<^verbatim>\<open>null\<close>. A failure is not retried.
\<close>

theorem one_request_per_activation:
  "filter isFetch (snd (analyzeTender st outcome)) =
     [Fetch ''http://localhost:8000/api/analyze-tender''
        \<lparr>req_method = ''POST'',
         req_headers = [(''Content-Type'', ''application/json'')],
         req_body = JObj [(''tender_id'', JStr (tenderId st)), (''tender_url'', JNull)]\<rparr>]"
  by (simp add: analyzeTender_def Let_def analyzeRequest_def split: sum.split prod.split)

theorem one_request_per_activation_witness:
  "filter isFetch (snd (analyzeTender sampleState (Inl TypeError))) =
     [Fetch ''http://localhost:8000/api/analyze-tender''
        \<lparr>req_method = ''POST'',
         req_headers = [(''Content-Type'', ''application/json'')],
         req_body = JObj [(''tender_id'', JStr ''T-1001''), (''tender_url'', JNull)]\<rparr>]"
  using one_request_per_activation [of sampleState "Inl TypeError"]
  by (simp add: sampleState_def)

text \<open>
  Claim C9. Rendering is a function from the state to an element tree (or an exception)
  and has no effects. What it puts after the heading and the input and trigger section is
  \<open>resultPanels\<close> of the stored result alone, so the same result renders the same
  panels whatever the tender id and the busy flag are. With no stored result that part is
  the value \<^verbatim>\<open>null\<close>, which React renders as nothing.
\<close>

theorem render_depends_on_result_only:
  "map_sum id (drop 2 \<circ> pageChildren) (TenderDashboard toLS st) =
     map_sum id (\<lambda>result. [result]) (resultPanels toLS (analysis st))
   \<and> (analysis st = None \<longrightarrow>
        TenderDashboard toLS st = Inr (page [heading, inputTrigger st, Expr JNull])
        \<and> rendersNothing (Expr JNull :: 'n vnode))"
  by (cases "resultPanels toLS (analysis st)")
     (auto simp: TenderDashboard_def bindE_def page_def resultPanels_def)

theorem render_depends_on_result_only_witness:
  "map_sum id (drop 2 \<circ> pageChildren) (TenderDashboard sampleLocale sampleState) =
     map_sum id (\<lambda>result. [result]) (resultPanels sampleLocale (Some olderResult))
   \<and> TenderDashboard sampleLocale freshState =
       Inr (page [heading, inputTrigger freshState, Expr JNull])"
  using render_depends_on_result_only [of sampleLocale sampleState]
    render_depends_on_result_only [of sampleLocale freshState]
  by (simp add: sampleState_def freshState_def)

text \<open>
  Claim C10. Before any activation the tender id is the empty string, no result is stored
  and the busy flag is false; so the view renders the heading and the input and trigger
  section with no result panel, and the one button of that view, the trigger, has
  \<^verbatim>\<open>disabled\<close> true.
\<close>

theorem initial_state_idle:
  "tenderId (initialState :: 'n dashboard) = []
   \<and> analysis (initialState :: 'n dashboard) = None
   \<and> \<not> loading (initialState :: 'n dashboard)
   \<and> buttonDisabled (initialState :: 'n dashboard)
   \<and> TenderDashboard toLS (initialState :: 'n dashboard) =
       Inr (page [heading, inputTrigger initialState, Expr JNull])
   \<and> findElems ''button'' (page [heading, inputTrigger (initialState :: 'n dashboard), Expr JNull]) =
       [Elem ''button''
          [(''onClick'', AHandler ''analyzeTender''),
           (''disabled'', ABool True),
           className ''px-6 py-2 bg-blue-600 text-white rounded-lg hover:bg-blue-700 disabled:opacity-50 flex items-center gap-2'']
          [Elem ''Search'' [(''size'', ANum 20)] [], Expr (JStr ''Analyze'')]]"
proof -
  have r: "TenderDashboard toLS (initialState :: 'n dashboard) =
       Inr (page [heading, inputTrigger initialState, Expr JNull])"
    by (simp add: initialState_def TenderDashboard_absent)
  have "findElems ''button'' (page [heading, inputTrigger (initialState :: 'n dashboard), Expr JNull]) =
          findElems ''button'' (inputTrigger (initialState :: 'n dashboard))"
    using r by (rule button_of_TenderDashboard)
  then have b: "findElems ''button'' (page [heading, inputTrigger (initialState :: 'n dashboard), Expr JNull]) =
       [Elem ''button''
          [(''onClick'', AHandler ''analyzeTender''),
           (''disabled'', ABool True),
           className ''px-6 py-2 bg-blue-600 text-white rounded-lg hover:bg-blue-700 disabled:opacity-50 flex items-center gap-2'']
          [Elem ''Search'' [(''size'', ANum 20)] [], Expr (JStr ''Analyze'')]]"
    by (simp add: button_of_inputTrigger) (simp add: initialState_def)
  show ?thesis
    using r b by (simp add: initialState_def buttonDisabled_def truthyStr_def)
qed

theorem initial_state_idle_witness:
  "buttonDisabled (initialState :: int dashboard)
   \<and> TenderDashboard sampleLocale initialState =
       Inr (page [heading, inputTrigger initialState, Expr JNull])
   \<and> findElems ''button'' (page [heading, inputTrigger (initialState :: int dashboard), Expr JNull]) =
       [Elem ''button''
          [(''onClick'', AHandler ''analyzeTender''),
           (''disabled'', ABool True),
           className ''px-6 py-2 bg-blue-600 text-white rounded-lg hover:bg-blue-700 disabled:opacity-50 flex items-center gap-2'']
          [Elem ''Search'' [(''size'', ANum 20)] [], Expr (JStr ''Analyze'')]]"
  using initial_state_idle [of sampleLocale]
  by simp

end
